theory Spec2Isabelle
  imports Complex_Main "HOL-Library.Word"
begin

unbundle bit_operations_syntax

section \<open>Timestamps and rationals\<close>

text \<open>
  Timestamps of the codec library are signed 64-bit integers. The reader subtracts them
  with the machine's wrap-around, so the reader is modelled on 64-bit words; the
  transcode loop only compares and adds small values, so it is modelled on \<open>int\<close>.
  \<open>AV_NOPTS_VALUE\<close> is the library's "no timestamp" constant, the bit pattern
  \<open>0x8000000000000000\<close> (the least signed 64-bit value).
\<close>

type_synonym int64_t = "64 word"

definition AV_NOPTS_VALUE :: int64_t where
  "AV_NOPTS_VALUE = 0x8000000000000000"

record EyerAVRational =
  num :: int
  den :: int

section \<open>EyerAVReader: reading one packet\<close>

text \<open>
  The part of a packet and of a demuxer stream the two \<open>Read\<close> functions touch.
  \<open>secPTS\<close> is a double in the source; it is kept as an exact real here.
\<close>

record EyerAVPacketPrivate =
  pkt_pts :: int64_t
  pkt_stream_index :: int
  secPTS :: real

record AVStream =
  start_time :: int64_t
  time_base :: EyerAVRational

definition av_q2d :: "EyerAVRational \<Rightarrow> real" where
  "av_q2d q = real_of_int (num q) / real_of_int (den q)"

text \<open>
  \<open>av_read_frame\<close> belongs to the codec library: its outcome (the return code and the
  packet it filled in) is an argument of the model. \<open>streams\<close> is the table
  \<open>formatCtx->streams\<close>, looked up at the packet's stream index, which the library only
  ever sets to an index of that table.

  \<open>Read_ptr\<close> is \<open>EyerAVReader::Read(EyerAVPacket *)\<close>, \<open>Read_ref\<close> is
  \<open>EyerAVReader::Read(EyerAVPacket &)\<close>, and \<open>Read_smart\<close> is
  \<open>EyerAVReader::Read(int &)\<close>, which delegates to the pointer version.
\<close>

definition Read_ptr ::
  "(int \<Rightarrow> AVStream) \<Rightarrow> int \<times> EyerAVPacketPrivate \<Rightarrow> int \<times> EyerAVPacketPrivate" where
  "Read_ptr streams r =
     (case r of (ret, packet) \<Rightarrow>
        if ret = 0 then
          (let streamIndex = pkt_stream_index packet;
               st = start_time (streams streamIndex);
               packet1 = packet\<lparr>pkt_pts := pkt_pts packet - st\<rparr>;
               pts = pkt_pts packet1
           in (ret, packet1\<lparr>secPTS := real_of_int (sint pts) * av_q2d (time_base (streams streamIndex))\<rparr>))
        else (ret, packet))"

definition Read_ref ::
  "(int \<Rightarrow> AVStream) \<Rightarrow> int \<times> EyerAVPacketPrivate \<Rightarrow> int \<times> EyerAVPacketPrivate" where
  "Read_ref streams r =
     (case r of (ret, packet) \<Rightarrow>
        if ret = 0 then
          (let streamIndex = pkt_stream_index packet;
               st = start_time (streams streamIndex);
               packet1 = (if st \<noteq> AV_NOPTS_VALUE then packet\<lparr>pkt_pts := pkt_pts packet - st\<rparr> else packet);
               pts = pkt_pts packet1
           in (ret,
               if pts \<noteq> AV_NOPTS_VALUE
               then packet1\<lparr>secPTS := real_of_int (sint pts) * av_q2d (time_base (streams streamIndex))\<rparr>
               else packet1))
        else (ret, packet))"

definition Read_smart ::
  "(int \<Rightarrow> AVStream) \<Rightarrow> int \<times> EyerAVPacketPrivate \<Rightarrow> int \<times> EyerAVPacketPrivate" where
  "Read_smart streams r = Read_ptr streams r"

text \<open>
  What the specification asks of a read: the time stamp is shifted by the stream's start
  time when that is defined and left alone otherwise.
\<close>

definition normalised_pts :: "AVStream \<Rightarrow> int64_t \<Rightarrow> int64_t" where
  "normalised_pts s pts = (if start_time s \<noteq> AV_NOPTS_VALUE then pts - start_time s else pts)"

section \<open>EyerAVEncoder: initialisation\<close>

datatype EyerAVCodecID =
    CODEC_ID_H264 | CODEC_ID_H265 | CODEC_ID_VP8 | CODEC_ID_VP9 | CODEC_ID_MJPEG
  | CODEC_ID_PNG | CODEC_ID_AAC | CODEC_ID_LIB_OPUS | CODEC_ID_MP3 | CODEC_ID_FLAC
  | CODEC_ID_PCM_S16LE | CODEC_ID_PCM_S32LE | CODEC_ID_PRORES | CODEC_ID_SRT
  | CODEC_ID_OTHER

datatype AVMediaType =
  AVMEDIA_TYPE_UNKNOWN | AVMEDIA_TYPE_VIDEO | AVMEDIA_TYPE_AUDIO | AVMEDIA_TYPE_SUBTITLE

text \<open>
  \<open>CODEC_ID_OTHER\<close> stands for every codec id that no branch of \<open>Init\<close> tests.
  The encoder that a branch looks up is either named or found by id.
\<close>

datatype AVCodec = ByName string | ById EyerAVCodecID

record EyerAVEncoderParam =
  codecId :: EyerAVCodecID
  width :: int
  height :: int
  pixelFormat :: int
  threadnum :: int
  timebase :: EyerAVRational
  crf :: int
  sampleFormat :: int
  sample_rate :: int
  channelLayout :: int

record AVCodecContext =
  ctx_codec_type :: AVMediaType
  ctx_pix_fmt :: int
  ctx_width :: int
  ctx_height :: int
  ctx_thread_count :: int
  ctx_time_base :: EyerAVRational
  ctx_sample_fmt :: int
  ctx_sample_rate :: int
  ctx_channel_layout :: int
  ctx_channels :: int
  ctx_global_quality :: int
  ctx_flags :: int
  ctx_codec_tag :: int

text \<open>
  The codec library, as far as \<open>Init\<close> calls it: the context that
  \<open>avcodec_alloc_context3\<close> hands out, the return code of \<open>avcodec_open2\<close> for a context,
  an encoder and an option dictionary, and \<open>av_get_channel_layout_nb_channels\<close>.
  Only what the repository's own code writes into the context is modelled; whatever the
  library changes inside \<open>avcodec_open2\<close> is outside the repository.
\<close>

record libavcodec =
  avcodec_alloc_context3 :: AVCodecContext
  avcodec_open2 :: "AVCodecContext option \<Rightarrow> AVCodec option \<Rightarrow> (string \<times> int) list \<Rightarrow> int"
  av_get_channel_layout_nb_channels :: "int \<Rightarrow> int"

record EyerAVEncoderPrivate =
  codecContext :: "AVCodecContext option"

definition FF_QP2LAMBDA :: int where "FF_QP2LAMBDA = 118"
definition AV_CODEC_FLAG_QSCALE :: int where "AV_CODEC_FLAG_QSCALE = 2"
definition AV_PIX_FMT_YUVJ420P :: int where "AV_PIX_FMT_YUVJ420P = 12"

text \<open>\<open>MKTAG('h','v','c','1')\<close>: the four characters, least significant first.\<close>

definition MKTAG_hvc1 :: int where
  "MKTAG_hvc1 = 104 + 118 * 2 ^ 8 + 99 * 2 ^ 16 + 49 * 2 ^ 24"

definition find_encoder :: "EyerAVCodecID \<Rightarrow> AVCodec option" where
  "find_encoder c =
     (case c of
        CODEC_ID_H264 \<Rightarrow> Some (ByName ''libx264'')
      | CODEC_ID_H265 \<Rightarrow> Some (ByName ''libx265'')
      | CODEC_ID_AAC \<Rightarrow> Some (ByName ''libfdk_aac'')
      | CODEC_ID_LIB_OPUS \<Rightarrow> Some (ByName ''libopus'')
      | CODEC_ID_OTHER \<Rightarrow> None
      | _ \<Rightarrow> Some (ById c))"

text \<open>The options a branch puts into the dictionary: the CRF, for H.264 and H.265 only.\<close>

definition encoder_dict :: "EyerAVEncoderParam \<Rightarrow> (string \<times> int) list" where
  "encoder_dict param =
     (if codecId param = CODEC_ID_H264 \<or> codecId param = CODEC_ID_H265
      then [(''crf'', crf param)] else [])"

text \<open>
  The field assignments of the branches, on the freshly allocated context \<open>c\<close>.
  The audio branches of AAC and Opus set the time base to \<open>1 / sample_rate\<close>; the
  branches of MP3, FLAC and the two PCM encoders assign no time base at all.
\<close>

definition set_video :: "EyerAVEncoderParam \<Rightarrow> AVCodecContext \<Rightarrow> AVCodecContext" where
  "set_video param c =
     c\<lparr>ctx_codec_type := AVMEDIA_TYPE_VIDEO, ctx_pix_fmt := pixelFormat param,
       ctx_width := width param, ctx_height := height param\<rparr>"

definition set_audio :: "libavcodec \<Rightarrow> EyerAVEncoderParam \<Rightarrow> AVCodecContext \<Rightarrow> AVCodecContext" where
  "set_audio lib param c =
     c\<lparr>ctx_codec_type := AVMEDIA_TYPE_AUDIO, ctx_sample_fmt := sampleFormat param,
       ctx_sample_rate := sample_rate param, ctx_channel_layout := channelLayout param,
       ctx_channels := av_get_channel_layout_nb_channels lib (channelLayout param)\<rparr>"

definition branch :: "libavcodec \<Rightarrow> EyerAVEncoderParam \<Rightarrow> AVCodecContext \<Rightarrow> AVCodecContext" where
  "branch lib param c =
     (case codecId param of
        CODEC_ID_H264 \<Rightarrow>
          (set_video param c)\<lparr>ctx_thread_count := threadnum param, ctx_time_base := timebase param\<rparr>
      | CODEC_ID_H265 \<Rightarrow>
          (set_video param
             (c\<lparr>ctx_global_quality := FF_QP2LAMBDA * 75,
                ctx_flags := ctx_flags c OR AV_CODEC_FLAG_QSCALE,
                ctx_codec_tag := MKTAG_hvc1\<rparr>))
          \<lparr>ctx_thread_count := threadnum param, ctx_time_base := timebase param\<rparr>
      | CODEC_ID_VP8 \<Rightarrow> (set_video param c)\<lparr>ctx_time_base := timebase param\<rparr>
      | CODEC_ID_VP9 \<Rightarrow> (set_video param c)\<lparr>ctx_thread_count := 32, ctx_time_base := timebase param\<rparr>
      | CODEC_ID_MJPEG \<Rightarrow>
          (set_video param c)\<lparr>ctx_pix_fmt := AV_PIX_FMT_YUVJ420P, ctx_time_base := timebase param\<rparr>
      | CODEC_ID_PNG \<Rightarrow> (set_video param c)\<lparr>ctx_time_base := timebase param\<rparr>
      | CODEC_ID_AAC \<Rightarrow>
          (set_audio lib param c)\<lparr>ctx_time_base := \<lparr>num = 1, den = sample_rate param\<rparr>\<rparr>
      | CODEC_ID_LIB_OPUS \<Rightarrow>
          (set_audio lib param c)\<lparr>ctx_time_base := \<lparr>num = 1, den = sample_rate param\<rparr>\<rparr>
      | CODEC_ID_MP3 \<Rightarrow> set_audio lib param c
      | CODEC_ID_FLAC \<Rightarrow> set_audio lib param c
      | CODEC_ID_PCM_S16LE \<Rightarrow> set_audio lib param c
      | CODEC_ID_PCM_S32LE \<Rightarrow> set_audio lib param c
      | CODEC_ID_PRORES \<Rightarrow>
          (set_video param c)\<lparr>ctx_thread_count := threadnum param, ctx_time_base := timebase param\<rparr>
      | CODEC_ID_SRT \<Rightarrow> c\<lparr>ctx_codec_type := AVMEDIA_TYPE_SUBTITLE, ctx_time_base := timebase param\<rparr>
      | CODEC_ID_OTHER \<Rightarrow> c)"

text \<open>
  \<open>EyerAVEncoder::Init\<close>. Every branch first tests the object's context: when one is
  already there it is closed and freed, the pointer is cleared and the call returns
  \<open>-1\<close>. Otherwise a context is allocated and filled in, and the result of
  \<open>avcodec_open2\<close> is returned. For an id that no branch tests the context is left as it
  is and \<open>avcodec_open2\<close> is called without an encoder.
\<close>

definition Init ::
  "libavcodec \<Rightarrow> EyerAVEncoderParam \<Rightarrow> EyerAVEncoderPrivate \<Rightarrow> int \<times> EyerAVEncoderPrivate" where
  "Init lib param piml =
     (if codecId param = CODEC_ID_OTHER
      then (avcodec_open2 lib (codecContext piml) None [], piml)
      else
        (case codecContext piml of
           Some old \<Rightarrow> (- 1, piml\<lparr>codecContext := None\<rparr>)
         | None \<Rightarrow>
             (let c = branch lib param (avcodec_alloc_context3 lib)
              in (avcodec_open2 lib (Some c) (find_encoder (codecId param)) (encoder_dict param),
                  piml\<lparr>codecContext := Some c\<rparr>))))"

definition GetTimebase :: "EyerAVEncoderPrivate \<Rightarrow> EyerAVRational option" where
  "GetTimebase piml = map_option ctx_time_base (codecContext piml)"

text \<open>
  The parameters \<open>EyerAVTranscode::InitEncoder\<close> builds. For video it starts from the
  parameters read off the source stream (\<open>from_stream\<close>), sets the time base to
  \<open>1/1000\<close> and the target size.
\<close>

definition InitEncoder_video_param :: "EyerAVEncoderParam \<Rightarrow> int \<Rightarrow> int \<Rightarrow> EyerAVEncoderParam" where
  "InitEncoder_video_param from_stream targetWidth targetHeight =
     from_stream\<lparr>timebase := \<lparr>num = 1, den = 1000\<rparr>, width := targetWidth, height := targetHeight\<rparr>"


definition supported_video :: "EyerAVCodecID set" where
  "supported_video =
     {CODEC_ID_H264, CODEC_ID_H265, CODEC_ID_VP8, CODEC_ID_VP9, CODEC_ID_MJPEG, CODEC_ID_PNG,
      CODEC_ID_PRORES}"

text \<open>A concrete library for worked examples: a zeroed context, every open succeeds.\<close>

definition blank_context :: AVCodecContext where
  "blank_context =
     \<lparr>ctx_codec_type = AVMEDIA_TYPE_UNKNOWN, ctx_pix_fmt = - 1, ctx_width = 0, ctx_height = 0,
      ctx_thread_count = 1, ctx_time_base = \<lparr>num = 0, den = 1\<rparr>, ctx_sample_fmt = - 1,
      ctx_sample_rate = 0, ctx_channel_layout = 0, ctx_channels = 0, ctx_global_quality = 0,
      ctx_flags = 0, ctx_codec_tag = 0\<rparr>"

definition lib_ok :: libavcodec where
  "lib_ok =
     \<lparr>avcodec_alloc_context3 = blank_context,
      avcodec_open2 = (\<lambda>c codec dict. 0),
      av_get_channel_layout_nb_channels = (\<lambda>l. 2)\<rparr>"

definition blank_param :: EyerAVEncoderParam where
  "blank_param =
     \<lparr>codecId = CODEC_ID_OTHER, width = 0, height = 0, pixelFormat = 0, threadnum = 1,
      timebase = \<lparr>num = 0, den = 1\<rparr>, crf = 23, sampleFormat = 0, sample_rate = 0,
      channelLayout = 0\<rparr>"

definition fresh_encoder :: EyerAVEncoderPrivate where
  "fresh_encoder = \<lparr>codecContext = None\<rparr>"

section \<open>The number of output frames\<close>

text \<open>
  Modelled from the spec: the declaration of the member \<open>frameCount\<close> is in a header that
  is not among the sources. The specification calls it the total number of output
  frames and the code compares it with the \<open>long\<close> frame index, so it is an integer.

  \<open>Transcode\<close> computes \<open>frameCount = videoDuration * params.fps\<close> and replaces a value
  that is not positive by 1. The product is a double, modelled as an exact real; the
  assignment to the integer member converts it as C++ does, by dropping the fraction
  (\<open>double_to_integer\<close>). Without a video stream the member keeps the value it had
  (\<open>frameCount0\<close>).
\<close>

definition double_to_integer :: "real \<Rightarrow> int" where
  "double_to_integer x = (if 0 \<le> x then \<lfloor>x\<rfloor> else \<lceil>x\<rceil>)"

definition compute_frameCount :: "int \<Rightarrow> real \<Rightarrow> real \<Rightarrow> int \<Rightarrow> int" where
  "compute_frameCount decoderVideoStreamIndex videoDuration fps frameCount0 =
     (if decoderVideoStreamIndex \<ge> 0 then
        (let frameCount = double_to_integer (videoDuration * fps)
         in if frameCount \<le> 0 then 1 else frameCount)
      else frameCount0)"


section \<open>The task list of the main window\<close>

datatype EyerAVTranscoderStatus = PREPARE | ING | SUCC | FAIL

text \<open>
  A task item, as far as scheduling reads it: its status, and whether \<open>StartTask\<close> will
  get past its two checks (the input opens, no file exists at the output path).
  \<open>StartTask\<close> sets the status to \<open>FAIL\<close> when a check fails and to \<open>ING\<close> when it
  starts the thread.
\<close>

record TaskItem =
  status :: EyerAVTranscoderStatus
  startable :: bool

definition StartTask :: "TaskItem \<Rightarrow> TaskItem" where
  "StartTask t = (if startable t then t\<lparr>status := ING\<rparr> else t\<lparr>status := FAIL\<rparr>)"

text \<open>The last \<open>for\<close> loop of the scheduling loop: start the first prepared task, then \<open>break\<close>.\<close>

fun start_first_PREPARE :: "TaskItem list \<Rightarrow> TaskItem list" where
  "start_first_PREPARE [] = []"
| "start_first_PREPARE (t # ts) =
     (if status t = PREPARE then StartTask t # ts else t # start_first_PREPARE ts)"

definition count_status :: "EyerAVTranscoderStatus \<Rightarrow> TaskItem list \<Rightarrow> int" where
  "count_status st ts = int (length (filter (\<lambda>t. status t = st) ts))"

text \<open>
  The \<open>while(1)\<close> loop of \<open>StartTranscodeClickListenerInternal\<close>. Every round turns one
  prepared task into a running or a failed one, so the number of prepared tasks is the
  measure of its termination.
\<close>

function schedule :: "int \<Rightarrow> TaskItem list \<Rightarrow> TaskItem list" where
  "schedule cap ts =
     (let ingCount = count_status ING ts;
          prepareCount = count_status PREPARE ts;
          failCount = count_status FAIL ts
      in if prepareCount \<le> 0 then ts
         else if ingCount \<ge> cap then ts
         else schedule cap (start_first_PREPARE ts))"
  by pat_completeness auto
termination
proof (relation "measure (\<lambda>(cap, ts). length (filter (\<lambda>t. status t = PREPARE) ts))")
  show "wf (measure (\<lambda>(cap, ts). length (filter (\<lambda>t. status t = PREPARE) ts)))"
    by simp
next
  fix cap :: int and ts :: "TaskItem list" and a b c :: int
  assume p: "b = count_status PREPARE ts" "\<not> b \<le> 0"
  have dec: "filter (\<lambda>t. status t = PREPARE) us \<noteq> [] \<Longrightarrow>
        length (filter (\<lambda>t. status t = PREPARE) (start_first_PREPARE us))
          < length (filter (\<lambda>t. status t = PREPARE) us)" for us
    by (induction us) (auto simp: StartTask_def)
  from p have "filter (\<lambda>t. status t = PREPARE) ts \<noteq> []"
    by (auto simp: count_status_def)
  from dec [OF this]
  show "((cap, start_first_PREPARE ts), (cap, ts))
          \<in> measure (\<lambda>(cap, ts). length (filter (\<lambda>t. status t = PREPARE) ts))"
    by simp
qed

declare schedule.simps [simp del]

text \<open>
  The window: the configured number of simultaneous tasks, the output directory and the
  tasks in the order of the layout, oldest first.
\<close>

record YouTransMainWindow =
  TransNumSametime :: int
  OutputDir :: string
  task_list :: "TaskItem list"

definition StartTranscodeClickListenerInternal :: "YouTransMainWindow \<Rightarrow> YouTransMainWindow" where
  "StartTranscodeClickListenerInternal w =
     (if OutputDir w = [] then w
      else if int (length (task_list w)) \<le> 0 then w
      else w\<lparr>task_list := schedule (TransNumSametime w) (task_list w)\<rparr>)"

definition StartTranscodeClickListener :: "YouTransMainWindow \<Rightarrow> YouTransMainWindow" where
  "StartTranscodeClickListener w =
     StartTranscodeClickListenerInternal
       (w\<lparr>task_list := map (\<lambda>t. if status t = FAIL then t\<lparr>status := PREPARE\<rparr> else t) (task_list w)\<rparr>)"

definition TaskItem_OnTaskSuccess :: "YouTransMainWindow \<Rightarrow> YouTransMainWindow" where
  "TaskItem_OnTaskSuccess w = StartTranscodeClickListenerInternal w"

definition TaskItem_OnTaskFail :: "YouTransMainWindow \<Rightarrow> YouTransMainWindow" where
  "TaskItem_OnTaskFail w = StartTranscodeClickListenerInternal w"

text \<open>One new task per chosen file, appended to the layout in the prepared state.\<close>

definition SetInputPathClickListener :: "bool list \<Rightarrow> YouTransMainWindow \<Rightarrow> YouTransMainWindow" where
  "SetInputPathClickListener files w =
     w\<lparr>task_list := task_list w @ map (\<lambda>ok. \<lparr>status = PREPARE, startable = ok\<rparr>) files\<rparr>"

definition TaskItem_OnRemove :: "nat \<Rightarrow> YouTransMainWindow \<Rightarrow> YouTransMainWindow" where
  "TaskItem_OnRemove i w = w\<lparr>task_list := take i (task_list w) @ drop (Suc i) (task_list w)\<rparr>"

text \<open>
  What can happen to the window: files are added, the start button is clicked, the
  thread of a running task ends in success or failure, a task is removed.

  Modelled from the spec: the transcoder that sets a task's status at the end of its run
  is not among the sources. A running job becomes succeeded or failed, once, and the
  window's slot runs after that (\<open>finish\<close>).
\<close>

datatype event = AddFiles "bool list" | ClickStart | Finished nat bool | Remove nat

definition finish :: "nat \<Rightarrow> bool \<Rightarrow> YouTransMainWindow \<Rightarrow> YouTransMainWindow" where
  "finish i ok w =
     (if i < length (task_list w) \<and> status (task_list w ! i) = ING
      then (if ok
            then TaskItem_OnTaskSuccess (w\<lparr>task_list := (task_list w)[i := (task_list w ! i)\<lparr>status := SUCC\<rparr>]\<rparr>)
            else TaskItem_OnTaskFail (w\<lparr>task_list := (task_list w)[i := (task_list w ! i)\<lparr>status := FAIL\<rparr>]\<rparr>))
      else w)"

fun step :: "YouTransMainWindow \<Rightarrow> event \<Rightarrow> YouTransMainWindow" where
  "step w (AddFiles files) = SetInputPathClickListener files w"
| "step w ClickStart = StartTranscodeClickListener w"
| "step w (Finished i ok) = finish i ok w"
| "step w (Remove i) = TaskItem_OnRemove i w"





section \<open>EyerAVTranscode: packets and their time stamps\<close>

record AVPacket =
  av_pts :: int
  av_dts :: int
  av_duration :: int
  av_stream_index :: int

definition NOPTS :: int where
  "NOPTS = - (2 ^ 63)"

text \<open>
  \<open>EyerAVPacket::RescaleTs\<close> hands the packet to the library's \<open>av_packet_rescale_ts\<close>,
  which rescales the presentation and decoding time stamps that are set and a duration
  that is positive with \<open>av_rescale_q\<close>: multiplication by the ratio of the two time
  bases, rounded to the nearest integer, halves away from zero. The library returns its
  least value for a divisor that is not positive or a negative multiplier.
\<close>

definition av_rescale_rnd :: "int \<Rightarrow> int \<Rightarrow> int \<Rightarrow> int" where
  "av_rescale_rnd a b c =
     (if c \<le> 0 \<or> b < 0 then NOPTS
      else if a < 0 then - ((- a * b + c div 2) div c)
      else (a * b + c div 2) div c)"

definition av_rescale_q :: "int \<Rightarrow> EyerAVRational \<Rightarrow> EyerAVRational \<Rightarrow> int" where
  "av_rescale_q a bq cq = av_rescale_rnd a (num bq * den cq) (num cq * den bq)"

definition RescaleTs :: "EyerAVRational \<Rightarrow> EyerAVRational \<Rightarrow> AVPacket \<Rightarrow> AVPacket" where
  "RescaleTs codecTimebase streamTimebase pkt =
     pkt\<lparr>av_pts := (if av_pts pkt \<noteq> NOPTS then av_rescale_q (av_pts pkt) codecTimebase streamTimebase
                    else av_pts pkt),
         av_dts := (if av_dts pkt \<noteq> NOPTS then av_rescale_q (av_dts pkt) codecTimebase streamTimebase
                    else av_dts pkt),
         av_duration := (if av_duration pkt > 0
                         then av_rescale_q (av_duration pkt) codecTimebase streamTimebase
                         else av_duration pkt)\<rparr>"

section \<open>EyerAVTranscode: the state and its collaborators\<close>

text \<open>
  The transcoder drives a writer, two encoders, a resampler, a decoder box and two
  readers. Their code belongs to the codec binding; the transcoder's state therefore
  records the calls it makes on them, in order, and their answers are arguments.
  \<open>VEnc_SendFrame t\<close> and \<open>AEnc_SendFrame t\<close> submit a frame whose time stamp is \<open>t\<close>;
  \<open>Rs_GetFrame ok\<close> is a call of the resampler's \<open>GetFrame\<close> that did (\<open>True\<close>, return
  code 0) or did not deliver a frame; \<open>Rs_GetLastFrame ret\<close> carries the return code, and
  so do the calls that open the writer, write the header and initialise an encoder or a
  decoder.
\<close>

datatype call =
    W_Open int | W_AddStream | W_WriteHand int | W_WritePacket AVPacket | W_WriteTrailer | W_Close
  | VEnc_Init int | VEnc_SendFrame int | VEnc_SendFrameNull
  | AEnc_Init int | AEnc_SendFrame int | AEnc_SendFrameNull
  | VDec_Init int | ADec_Init int
  | Rs_Init | Rs_PutAVFrame | Rs_PutAVFrameNULL | Rs_GetFrame bool | Rs_GetLastFrame int
  | Frame_SetPTS int

record EyerAVTranscodeParams =
  targetWidth :: int
  targetHeight :: int
  fps :: real
  careVideo :: bool
  careAudio :: bool

text \<open>
  One packet of the audio reader: its stream index and, for each frame the audio decoder
  makes of it, the number of full encoder-sized frames the resampler then delivers.
\<close>

record apacket =
  ap_stream_index :: int
  ap_frames :: "nat list"

text \<open>
  The collaborators' answers. The first six are return codes, of \<open>writer.Open\<close>,
  \<open>writer.WriteHand\<close> and the \<open>Init\<close> of each encoder and decoder. \<open>venc_packets cs\<close> and \<open>aenc_packets cs\<close> are the packets
  the encoder hands out, one per successful \<open>RecvPacket\<close>, after the calls \<open>cs\<close> made so
  far; \<open>box_GetFrame t\<close> is the return code of the decoder box for the time \<open>t\<close>;
  \<open>audio_input\<close> is what the audio reader returns before it reports the end of the file
  and \<open>adec_drain\<close> the frames the audio decoder still delivers after the null packet;
  \<open>rs_drain\<close> is the number of frames the resampler delivers after the null frame and
  \<open>rs_last\<close> the return code of \<open>GetLastFrame\<close>. Every one of these loops is finite by
  construction: each collaborator answers "no more" after finitely many items.
\<close>

record env =
  Open_ret :: int
  WriteHand_ret :: int
  venc_Init_ret :: int
  aenc_Init_ret :: int
  vdec_Init_ret :: int
  adec_Init_ret :: int
  src_video_index :: int
  src_audio_index :: int
  stream_duration :: real
  AddStream_ret :: "call list \<Rightarrow> int"
  writer_timebase :: "int \<Rightarrow> EyerAVRational"
  venc_timebase :: EyerAVRational
  aenc_timebase :: EyerAVRational
  aenc_frame_size :: int
  venc_packets :: "call list \<Rightarrow> AVPacket list"
  aenc_packets :: "call list \<Rightarrow> AVPacket list"
  box_GetFrame :: "real \<Rightarrow> int"
  audio_input :: "apacket list"
  adec_drain :: "nat list"
  rs_drain :: nat
  rs_last :: int

text \<open>
  The members of \<open>EyerAVTranscode\<close> that \<open>Transcode\<close> reads and writes, the calls made so
  far, and the position of the audio reader and of the audio decoder's buffer. The
  members' initial values are set in a header that is not among the sources; they are
  whatever the initial state holds.
\<close>

record transcode =
  calls :: "call list"
  audioOffset :: int
  frameCount :: int
  videoDuration :: real
  decoderVideoStreamIndex :: int
  decoderAudioStreamIndex :: int
  encoderVideoStreamIndex :: int
  encoderAudioStreamIndex :: int
  audio_rest :: "apacket list"
  adec_rest :: "nat list"

section \<open>EyerAVTranscode: encoding and writing\<close>

text \<open>
  The loop that follows every send to an encoder: each packet received gets the output
  stream's index, is rescaled from the encoder's time base to the writer's and is
  written. Nothing else is done to its time stamps.
\<close>

primrec write_packets ::
  "EyerAVRational \<Rightarrow> EyerAVRational \<Rightarrow> int \<Rightarrow> AVPacket list \<Rightarrow> call list \<Rightarrow> call list" where
  "write_packets codecTimebase streamTimebase idx [] cs = cs"
| "write_packets codecTimebase streamTimebase idx (packet # ps) cs =
     write_packets codecTimebase streamTimebase idx ps
       (cs @ [W_WritePacket (RescaleTs codecTimebase streamTimebase (packet\<lparr>av_stream_index := idx\<rparr>))])"

definition drain_video :: "env \<Rightarrow> transcode \<Rightarrow> transcode" where
  "drain_video e s =
     s\<lparr>calls := write_packets (venc_timebase e) (writer_timebase e (encoderVideoStreamIndex s))
                  (encoderVideoStreamIndex s) (venc_packets e (calls s)) (calls s)\<rparr>"

definition drain_audio :: "env \<Rightarrow> transcode \<Rightarrow> transcode" where
  "drain_audio e s =
     s\<lparr>calls := write_packets (aenc_timebase e) (writer_timebase e (encoderAudioStreamIndex s))
                  (encoderAudioStreamIndex s) (aenc_packets e (calls s)) (calls s)\<rparr>"

definition EncodeAudio :: "env \<Rightarrow> int \<Rightarrow> transcode \<Rightarrow> transcode" where
  "EncodeAudio e framePts s = drain_audio e (s\<lparr>calls := calls s @ [AEnc_SendFrame framePts]\<rparr>)"

text \<open>
  The innermost audio loop: while the resampler delivers a frame of the encoder's frame
  size, the frame gets the time stamp \<open>audioOffset\<close>, \<open>audioOffset\<close> advances by the frame
  size and the frame is encoded.
\<close>

primrec resample_frames :: "env \<Rightarrow> nat \<Rightarrow> transcode \<Rightarrow> transcode" where
  "resample_frames e 0 s = s\<lparr>calls := calls s @ [Rs_GetFrame False]\<rparr>"
| "resample_frames e (Suc k) s =
     (let s1 = s\<lparr>calls := calls s @ [Rs_GetFrame True, Frame_SetPTS (audioOffset s)]\<rparr>;
          s2 = s1\<lparr>audioOffset := audioOffset s1 + aenc_frame_size e\<rparr>
      in resample_frames e k (EncodeAudio e (audioOffset s) s2))"

text \<open>The loop over the frames the audio decoder delivers: each goes to the resampler.\<close>

primrec decoded_frames :: "env \<Rightarrow> nat list \<Rightarrow> transcode \<Rightarrow> transcode" where
  "decoded_frames e [] s = s"
| "decoded_frames e (k # ks) s =
     decoded_frames e ks (resample_frames e k (s\<lparr>calls := calls s @ [Rs_PutAVFrame]\<rparr>))"

text \<open>
  \<open>TranscodeAudio\<close>, as a loop over what the reader still has. At the end of the file
  the decoder is drained and the result is \<open>-1\<close>; a packet of another stream is skipped;
  otherwise the packet is decoded, and the burst ends with 0 once the time of the last
  frame, \<open>audioOffset / 44100\<close>, is beyond the limit.
\<close>

fun TranscodeAudio_loop ::
  "env \<Rightarrow> real \<Rightarrow> apacket list \<Rightarrow> transcode \<Rightarrow> int \<times> apacket list \<times> transcode" where
  "TranscodeAudio_loop e limitTime [] s =
     (- 1, [], (decoded_frames e (adec_rest s) s)\<lparr>adec_rest := []\<rparr>)"
| "TranscodeAudio_loop e limitTime (packet # rest) s =
     (if ap_stream_index packet \<noteq> decoderAudioStreamIndex s
      then TranscodeAudio_loop e limitTime rest s
      else
        (let s1 = decoded_frames e (ap_frames packet) s;
             lastFrameTime = (if ap_frames packet = [] then 0
                              else real_of_int (audioOffset s1) * 1.0 / 44100)
         in if lastFrameTime > limitTime then (0, rest, s1)
            else TranscodeAudio_loop e limitTime rest s1))"

definition TranscodeAudio :: "env \<Rightarrow> real \<Rightarrow> transcode \<Rightarrow> int \<times> transcode" where
  "TranscodeAudio e limitTime s =
     (case TranscodeAudio_loop e limitTime (audio_rest s) s of
        (ret, rest, s1) \<Rightarrow> (ret, s1\<lparr>audio_rest := rest\<rparr>))"

text \<open>
  The loop of \<open>TranscodeVideo\<close>. The frame at index \<open>frameOffset\<close> has the time
  \<open>frameOffset / fps\<close> seconds; it is fetched from the decoder box (a failure ends the
  burst with \<open>-1\<close>), scaled, stamped in milliseconds and encoded. Only then is the time
  compared with the limit: beyond it the index advances and the burst ends with 0,
  otherwise the index advances and the loop goes on. The times are doubles in the
  source and exact reals here, which agrees with the source for a positive frame rate.
  Nothing in the loop bounds it for other frame rates, so not returning is the value
  \<open>None\<close>.
\<close>

partial_function (option) TranscodeVideo_loop ::
  "env \<Rightarrow> EyerAVTranscodeParams \<Rightarrow> real \<Rightarrow> int \<Rightarrow> transcode \<Rightarrow> (int \<times> int \<times> transcode) option" where
  "TranscodeVideo_loop e params limitTime frameOffset s =
     (let pts = real_of_int frameOffset * 1.0 / fps params
      in if box_GetFrame e pts \<noteq> 0 then Some (- 1, frameOffset, s)
         else
           (let s1 = drain_video e
                       (s\<lparr>calls := calls s @ [Frame_SetPTS (double_to_integer (pts * 1000)),
                                               VEnc_SendFrame (double_to_integer (pts * 1000))]\<rparr>)
            in if pts > limitTime then Some (0, frameOffset + 1, s1)
               else TranscodeVideo_loop e params limitTime (frameOffset + 1) s1))"

declare TranscodeVideo_loop.simps [code]

text \<open>
  \<open>TranscodeVideo\<close> returns the code and the frame index, which the source passes by
  reference. The test against \<open>frameCount\<close> is made once, on entry.
\<close>

definition TranscodeVideo ::
  "env \<Rightarrow> EyerAVTranscodeParams \<Rightarrow> real \<Rightarrow> int \<Rightarrow> transcode \<Rightarrow> (int \<times> int \<times> transcode) option" where
  "TranscodeVideo e params limitTime frameOffset s =
     (if frameOffset \<ge> frameCount s then Some (- 1, frameOffset, s)
      else TranscodeVideo_loop e params limitTime frameOffset s)"

text \<open>
  The interleaving loop of \<open>Transcode\<close>: the limit grows by half a second, a video burst
  and an audio burst run (a stream that is not cared for counts as \<open>-1\<close>), and the loop
  ends when neither returned 0. The sleep between the bursts has no effect on the state.
\<close>

partial_function (option) main_loop ::
  "env \<Rightarrow> EyerAVTranscodeParams \<Rightarrow> real \<Rightarrow> int \<Rightarrow> transcode \<Rightarrow> (int \<times> transcode) option" where
  "main_loop e params limitTime frameOffset s =
     Option.bind
       (if careVideo params then TranscodeVideo e params (limitTime + 0.5) frameOffset s
        else Some (- 1, frameOffset, s))
       (\<lambda>(retVideo, frameOffset1, s1).
          (case (if careAudio params then TranscodeAudio e (limitTime + 0.5) s1 else (- 1, s1)) of
             (retAudio, s2) \<Rightarrow>
               if retAudio \<noteq> 0 \<and> retVideo \<noteq> 0 then Some (frameOffset1, s2)
               else main_loop e params (limitTime + 0.5) frameOffset1 s2))"

declare main_loop.simps [code]

text \<open>
  \<open>InitEncoder\<close>: for a stream the source file has and the parameters care for, the
  encoder is initialised (its return code is only logged) and a stream is added to the
  writer, whose index is kept. The reader it opens for this and the two readers of
  \<open>InitDeocder\<close> read the same file, so all three find the same best streams.
\<close>

definition InitEncoder :: "env \<Rightarrow> EyerAVTranscodeParams \<Rightarrow> transcode \<Rightarrow> transcode" where
  "InitEncoder e params s =
     (let videoIndex = src_video_index e;
          s1 = (if videoIndex \<ge> 0 \<and> careVideo params
                then (let s' = s\<lparr>calls := calls s @ [VEnc_Init (venc_Init_ret e)]\<rparr>
                      in s'\<lparr>encoderVideoStreamIndex := AddStream_ret e (calls s'),
                            calls := calls s' @ [W_AddStream]\<rparr>)
                else s);
          audioIndex = src_audio_index e
      in if audioIndex \<ge> 0 \<and> careAudio params
         then (let s' = s1\<lparr>calls := calls s1 @ [AEnc_Init (aenc_Init_ret e)]\<rparr>
               in s'\<lparr>encoderAudioStreamIndex := AddStream_ret e (calls s'),
                     calls := calls s' @ [W_AddStream]\<rparr>)
         else s1)"

text \<open>
  \<open>InitDeocder\<close>: both readers are opened and the best streams looked up. With a video
  stream its duration is kept, a negative one as 0, and the video decoder is
  initialised; with an audio stream the audio decoder is. It returns 0 whatever the
  decoders answered.
\<close>

definition InitDeocder :: "env \<Rightarrow> transcode \<Rightarrow> transcode" where
  "InitDeocder e s =
     (let s1 = s\<lparr>decoderVideoStreamIndex := src_video_index e\<rparr>;
          s2 = (if decoderVideoStreamIndex s1 \<ge> 0
                then s1\<lparr>videoDuration := (if stream_duration e \<le> 0 then 0 else stream_duration e),
                        calls := calls s1 @ [VDec_Init (vdec_Init_ret e)]\<rparr>
                else s1);
          s3 = s2\<lparr>audio_rest := audio_input e, decoderAudioStreamIndex := src_audio_index e\<rparr>
      in if decoderAudioStreamIndex s3 \<ge> 0
         then s3\<lparr>adec_rest := adec_drain e, calls := calls s3 @ [ADec_Init (adec_Init_ret e)]\<rparr>
         else s3)"

text \<open>The flush of the video encoder: the null frame, then the write loop.\<close>

definition flush_video :: "env \<Rightarrow> EyerAVTranscodeParams \<Rightarrow> transcode \<Rightarrow> transcode" where
  "flush_video e params s =
     (if careVideo params \<and> encoderVideoStreamIndex s \<ge> 0
      then drain_video e (s\<lparr>calls := calls s @ [VEnc_SendFrameNull]\<rparr>)
      else s)"

text \<open>
  The flush of the audio chain. After the null frame the resampler is emptied: the
  frames \<open>GetFrame\<close> still delivers are dropped (the send is commented out in the
  source). \<open>GetLastFrame\<close> is called once; when it returns 0 the frame is stamped with
  \<open>audioOffset\<close> and \<open>audioOffset\<close> advances by the encoder's frame size, and the frame
  is dropped as well (its send is commented out too). Then the encoder gets the null
  frame and its packets are written.
\<close>

primrec clear_resample :: "nat \<Rightarrow> call list \<Rightarrow> call list" where
  "clear_resample 0 cs = cs @ [Rs_GetFrame False]"
| "clear_resample (Suc k) cs = clear_resample k (cs @ [Rs_GetFrame True])"

definition flush_audio :: "env \<Rightarrow> EyerAVTranscodeParams \<Rightarrow> transcode \<Rightarrow> transcode" where
  "flush_audio e params s =
     (if careAudio params \<and> encoderAudioStreamIndex s \<ge> 0
      then
        (let s1 = s\<lparr>calls := clear_resample (rs_drain e) (calls s @ [Rs_PutAVFrameNULL])\<rparr>;
             ret = rs_last e;
             s2 = s1\<lparr>calls := calls s1 @ [Rs_GetLastFrame ret]\<rparr>;
             s3 = (if ret = 0
                   then s2\<lparr>calls := calls s2 @ [Frame_SetPTS (audioOffset s2)],
                           audioOffset := audioOffset s2 + aenc_frame_size e\<rparr>
                   else s2)
         in drain_audio e (s3\<lparr>calls := calls s3 @ [AEnc_SendFrameNull]\<rparr>))
      else s)"

text \<open>
  \<open>Transcode\<close>: open the writer, initialise the encoders, write the header, initialise
  the decoders and the resampler, compute the frame count, run the interleaving loop,
  flush both chains, write the trailer, close, return 0. No return code of a
  collaborator is looked at.
\<close>

definition Transcode ::
  "env \<Rightarrow> EyerAVTranscodeParams \<Rightarrow> transcode \<Rightarrow> (int \<times> transcode) option" where
  "Transcode e params s0 =
     (let s1 = s0\<lparr>calls := calls s0 @ [W_Open (Open_ret e)]\<rparr>;
          s2 = InitEncoder e params s1;
          s3 = s2\<lparr>calls := calls s2 @ [W_WriteHand (WriteHand_ret e)]\<rparr>;
          s4 = InitDeocder e s3;
          s5 = (if decoderAudioStreamIndex s4 \<ge> 0 then s4\<lparr>calls := calls s4 @ [Rs_Init]\<rparr> else s4);
          s6 = s5\<lparr>frameCount := compute_frameCount (decoderVideoStreamIndex s5) (videoDuration s5)
                                   (fps params) (frameCount s5)\<rparr>
      in Option.bind (main_loop e params 0 0 s6)
           (\<lambda>(frameOffset, s7).
              (let s8 = flush_video e params s7;
                   s9 = flush_audio e params s8
               in Some (0, s9\<lparr>calls := calls s9 @ [W_WriteTrailer, W_Close]\<rparr>))))"

section \<open>Reading the record of calls\<close>


definition sent_video :: "call list \<Rightarrow> int list" where
  "sent_video cs = concat (map (\<lambda>c. case c of VEnc_SendFrame x \<Rightarrow> [x] | _ \<Rightarrow> []) cs)"

definition sent_audio :: "call list \<Rightarrow> int list" where
  "sent_audio cs = concat (map (\<lambda>c. case c of AEnc_SendFrame x \<Rightarrow> [x] | _ \<Rightarrow> []) cs)"

text \<open>The calls that open, structure and close the output file.\<close>

fun writer_control :: "call \<Rightarrow> bool" where
  "writer_control (W_Open r) = True"
| "writer_control W_AddStream = True"
| "writer_control (W_WriteHand r) = True"
| "writer_control W_WriteTrailer = True"
| "writer_control W_Close = True"
| "writer_control c = False"

text \<open>Every call on the writer.\<close>

fun writer_call :: "call \<Rightarrow> bool" where
  "writer_call (W_Open r) = True"
| "writer_call W_AddStream = True"
| "writer_call (W_WriteHand r) = True"
| "writer_call (W_WritePacket p) = True"
| "writer_call W_WriteTrailer = True"
| "writer_call W_Close = True"
| "writer_call c = False"

text \<open>What the write loop does to one packet.\<close>

definition finalise :: "EyerAVRational \<Rightarrow> EyerAVRational \<Rightarrow> int \<Rightarrow> AVPacket \<Rightarrow> AVPacket" where
  "finalise a b idx p = RescaleTs a b (p\<lparr>av_stream_index := idx\<rparr>)"

text \<open>The time stamp, in milliseconds, that \<open>TranscodeVideo\<close> gives the frame at an index.\<close>

definition frame_ms :: "EyerAVTranscodeParams \<Rightarrow> int \<Rightarrow> int" where
  "frame_ms params i = double_to_integer (real_of_int i * 1.0 / fps params * 1000)"

text \<open>One round of the video loop that encodes: stamp, send, write what comes out.\<close>

definition encode_frame :: "env \<Rightarrow> EyerAVTranscodeParams \<Rightarrow> int \<Rightarrow> transcode \<Rightarrow> transcode" where
  "encode_frame e params i s =
     drain_video e (s\<lparr>calls := calls s @ [Frame_SetPTS (frame_ms params i), VEnc_SendFrame (frame_ms params i)]\<rparr>)"

text \<open>
  What a burst or a flush may do to the state: add calls that are not among the writer's
  structuring calls, keep the frame count, and never give the audio reader input back.
\<close>

definition extends :: "transcode \<Rightarrow> transcode \<Rightarrow> bool" where
  "extends s s' \<longleftrightarrow>
     (\<exists>ext. calls s' = calls s @ ext \<and> (\<forall>c \<in> set ext. \<not> writer_control c))
     \<and> frameCount s' = frameCount s
     \<and> length (audio_rest s') \<le> length (audio_rest s)"

text \<open>Values for worked examples.\<close>

definition tb_1_1000 :: EyerAVRational where "tb_1_1000 = \<lparr>num = 1, den = 1000\<rparr>"
definition pkt :: "int \<Rightarrow> AVPacket" where
  "pkt t = \<lparr>av_pts = t, av_dts = t, av_duration = 0, av_stream_index = 0\<rparr>"

text \<open>
  A small job: encoders that hand out one packet for every frame they are sent, a source
  with a video stream of one second and one audio packet that fills one encoder frame,
  and a resampler that still holds a short last frame.
\<close>

definition echo_video :: "call list \<Rightarrow> AVPacket list" where
  "echo_video cs = (case rev cs of VEnc_SendFrame t # r \<Rightarrow> [pkt t] | _ \<Rightarrow> [])"

definition echo_audio :: "call list \<Rightarrow> AVPacket list" where
  "echo_audio cs = (case rev cs of AEnc_SendFrame t # r \<Rightarrow> [pkt t] | _ \<Rightarrow> [])"

definition demo_env :: env where
  "demo_env =
     \<lparr>Open_ret = - 1, WriteHand_ret = - 1, venc_Init_ret = - 1, aenc_Init_ret = - 1,
      vdec_Init_ret = - 1, adec_Init_ret = - 1,
      src_video_index = 0, src_audio_index = 1, stream_duration = 1,
      AddStream_ret = (\<lambda>cs. int (length (filter (\<lambda>c. c = W_AddStream) cs))),
      writer_timebase = (\<lambda>i. tb_1_1000), venc_timebase = tb_1_1000,
      aenc_timebase = \<lparr>num = 1, den = 44100\<rparr>, aenc_frame_size = 1152,
      venc_packets = echo_video, aenc_packets = echo_audio,
      box_GetFrame = (\<lambda>t. 0),
      audio_input = [\<lparr>ap_stream_index = 1, ap_frames = [1]\<rparr>],
      adec_drain = [], rs_drain = 0, rs_last = 0\<rparr>"

definition demo_params :: EyerAVTranscodeParams where
  "demo_params = \<lparr>targetWidth = 640, targetHeight = 360, fps = 1, careVideo = True, careAudio = True\<rparr>"

definition demo_state :: transcode where
  "demo_state =
     \<lparr>calls = [], audioOffset = 0, frameCount = 0, videoDuration = 0,
      decoderVideoStreamIndex = - 1, decoderAudioStreamIndex = - 1,
      encoderVideoStreamIndex = - 1, encoderAudioStreamIndex = - 1,
      audio_rest = [], adec_rest = []\<rparr>"

definition flush_state :: transcode where
  "flush_state = demo_state\<lparr>encoderAudioStreamIndex := 1, audioOffset := 2304\<rparr>"

section \<open>Results about the reader\<close>

lemma Read_ref_normalises:
  "Read_ref streams (0, packet) = (ret, packet') \<Longrightarrow>
     ret = 0 \<and> pkt_pts packet' = normalised_pts (streams (pkt_stream_index packet)) (pkt_pts packet)"
  by (auto simp: Read_ref_def normalised_pts_def Let_def split: if_splits)

text \<open>
  C4. The claim asks every variant of \<open>Read\<close> to leave the time stamp untouched when
  the stream's start time is undefined. The reference version does
  (\<open>Read_ref_normalises\<close>); the pointer version, and the smart-pointer version that calls
  it, subtract the start time without looking at it. For a stream whose start time is
  \<open>AV_NOPTS_VALUE\<close> and a packet with time stamp 100 the pointer version returns the time
  stamp \<open>0x8000000000000064\<close>, where the reference version returns 100; and a packet
  without a time stamp leaves the pointer version with the time stamp 0.
\<close>

theorem Read_ptr_undefined_start_time:
  "pkt_pts (snd (Read_ptr (\<lambda>i. \<lparr>start_time = AV_NOPTS_VALUE, time_base = \<lparr>num = 1, den = 1000\<rparr>\<rparr>)
       (0, \<lparr>pkt_pts = 100, pkt_stream_index = 0, secPTS = 0\<rparr>))) = 0x8000000000000064
   \<and> pkt_pts (snd (Read_smart (\<lambda>i. \<lparr>start_time = AV_NOPTS_VALUE, time_base = \<lparr>num = 1, den = 1000\<rparr>\<rparr>)
       (0, \<lparr>pkt_pts = 100, pkt_stream_index = 0, secPTS = 0\<rparr>))) = 0x8000000000000064
   \<and> pkt_pts (snd (Read_ref (\<lambda>i. \<lparr>start_time = AV_NOPTS_VALUE, time_base = \<lparr>num = 1, den = 1000\<rparr>\<rparr>)
       (0, \<lparr>pkt_pts = 100, pkt_stream_index = 0, secPTS = 0\<rparr>))) = 100
   \<and> normalised_pts \<lparr>start_time = AV_NOPTS_VALUE, time_base = \<lparr>num = 1, den = 1000\<rparr>\<rparr> 100 = 100
   \<and> pkt_pts (snd (Read_ptr (\<lambda>i. \<lparr>start_time = AV_NOPTS_VALUE, time_base = \<lparr>num = 1, den = 1000\<rparr>\<rparr>)
       (0, \<lparr>pkt_pts = AV_NOPTS_VALUE, pkt_stream_index = 0, secPTS = 0\<rparr>))) = 0
   \<and> pkt_pts (snd (Read_ref (\<lambda>i. \<lparr>start_time = AV_NOPTS_VALUE, time_base = \<lparr>num = 1, den = 1000\<rparr>\<rparr>)
       (0, \<lparr>pkt_pts = AV_NOPTS_VALUE, pkt_stream_index = 0, secPTS = 0\<rparr>))) = AV_NOPTS_VALUE"
  by (simp add: Read_ptr_def Read_smart_def Read_ref_def normalised_pts_def AV_NOPTS_VALUE_def Let_def)

section \<open>Results about the encoder\<close>

lemma Init_video_time_base:
  "codecId from_stream \<in> supported_video \<Longrightarrow>
   GetTimebase (snd (Init lib (InitEncoder_video_param from_stream w h) \<lparr>codecContext = None\<rparr>))
     = Some \<lparr>num = 1, den = 1000\<rparr>"
  by (auto simp: Init_def GetTimebase_def branch_def set_video_def Let_def supported_video_def
        InitEncoder_video_param_def)

lemma Init_audio_no_time_base:
  "codecId param \<in> {CODEC_ID_MP3, CODEC_ID_FLAC, CODEC_ID_PCM_S16LE, CODEC_ID_PCM_S32LE} \<Longrightarrow>
   GetTimebase (snd (Init lib param \<lparr>codecContext = None\<rparr>))
     = Some (ctx_time_base (avcodec_alloc_context3 lib))"
  by (auto simp: Init_def GetTimebase_def branch_def set_audio_def Let_def)


text \<open>
  C9, as amended. For every codec id that \<open>Init\<close> supports, a call on an object that
  already holds a context returns \<open>-1\<close> and leaves the object without a context; a later
  call therefore behaves as on a fresh object.
\<close>

theorem Init_on_initialised_encoder:
  "codecId param \<noteq> CODEC_ID_OTHER \<Longrightarrow> codecContext piml = Some c \<Longrightarrow>
   fst (Init lib param piml) = - 1
   \<and> codecContext (snd (Init lib param piml)) = None
   \<and> Init lib param' (snd (Init lib param piml)) = Init lib param' (piml\<lparr>codecContext := None\<rparr>)"
  by (simp add: Init_def)

theorem Init_on_initialised_encoder_witness:
  "fst (Init lib_ok (blank_param\<lparr>codecId := CODEC_ID_H264\<rparr>) \<lparr>codecContext = Some blank_context\<rparr>) = - 1
   \<and> codecContext (snd (Init lib_ok (blank_param\<lparr>codecId := CODEC_ID_H264\<rparr>)
         \<lparr>codecContext = Some blank_context\<rparr>)) = None"
  using Init_on_initialised_encoder
    [of "blank_param\<lparr>codecId := CODEC_ID_H264\<rparr>" "\<lparr>codecContext = Some blank_context\<rparr>"
        blank_context lib_ok]
  by (simp add: blank_param_def)

text \<open>
  The claim's "at most once" fails: on one object, with a library whose opens succeed,
  the first call returns 0, the second \<open>-1\<close>, and the third 0 again.
\<close>

theorem Init_succeeds_twice:
  "fst (Init lib_ok (blank_param\<lparr>codecId := CODEC_ID_H264\<rparr>) fresh_encoder) = 0
   \<and> fst (Init lib_ok (blank_param\<lparr>codecId := CODEC_ID_H264\<rparr>)
        (snd (Init lib_ok (blank_param\<lparr>codecId := CODEC_ID_H264\<rparr>) fresh_encoder))) = - 1
   \<and> fst (Init lib_ok (blank_param\<lparr>codecId := CODEC_ID_H264\<rparr>)
        (snd (Init lib_ok (blank_param\<lparr>codecId := CODEC_ID_H264\<rparr>)
          (snd (Init lib_ok (blank_param\<lparr>codecId := CODEC_ID_H264\<rparr>) fresh_encoder))))) = 0"
  by (simp add: Init_def fresh_encoder_def lib_ok_def blank_param_def)

section \<open>Results about the frame count\<close>





section \<open>Results about the scheduling of tasks\<close>















section \<open>Results about the time stamps of written packets\<close>

lemma write_packets_eq:
  "write_packets a b idx ps cs = cs @ map (\<lambda>p. W_WritePacket (finalise a b idx p)) ps"
  by (induction ps arbitrary: cs) (simp_all add: finalise_def)










section \<open>Results about the flush of the audio chain\<close>

lemma clear_resample_eq:
  "clear_resample k cs = cs @ replicate k (Rs_GetFrame True) @ [Rs_GetFrame False]"
  by (induction k arbitrary: cs) (simp_all add: replicate_app_Cons_same)

lemma drain_audio_calls:
  "calls (drain_audio e s) = calls s @ map (\<lambda>p. W_WritePacket (finalise (aenc_timebase e)
       (writer_timebase e (encoderAudioStreamIndex s)) (encoderAudioStreamIndex s) p)) (aenc_packets e (calls s))"
  by (simp add: drain_audio_def write_packets_eq)

lemma sent_audio_append: "sent_audio (xs @ ys) = sent_audio xs @ sent_audio ys"
  by (simp add: sent_audio_def)

lemma sent_audio_Nil: "sent_audio [] = []"
  by (simp add: sent_audio_def)

lemma sent_audio_Cons:
  "sent_audio (c # cs) = (case c of AEnc_SendFrame x \<Rightarrow> [x] | _ \<Rightarrow> []) @ sent_audio cs"
  by (simp add: sent_audio_def)

lemma sent_audio_written: "sent_audio (map (\<lambda>p. W_WritePacket (f p)) ps) = []"
  by (induction ps) (simp_all add: sent_audio_def)

lemma sent_audio_written_comp: "sent_audio (map (W_WritePacket \<circ> f) ps) = []"
  by (simp add: comp_def sent_audio_written)

lemma sent_audio_replicate: "sent_audio (replicate k (Rs_GetFrame b)) = []"
  by (induction k) (simp_all add: sent_audio_def)

lemma flush_audio_eq:
  assumes "careAudio params" "0 \<le> encoderAudioStreamIndex s"
  shows "flush_audio e params s =
     drain_audio e
       (s\<lparr>audioOffset := (if rs_last e = 0 then audioOffset s + aenc_frame_size e else audioOffset s),
          calls := calls s @ [Rs_PutAVFrameNULL] @ replicate (rs_drain e) (Rs_GetFrame True)
            @ [Rs_GetFrame False, Rs_GetLastFrame (rs_last e)]
            @ (if rs_last e = 0 then [Frame_SetPTS (audioOffset s)] else []) @ [AEnc_SendFrameNull]\<rparr>)"
  using assms by (simp add: flush_audio_def Let_def clear_resample_eq)

text \<open>
  C1, as amended. In the flush of the audio chain the resampler gets the null frame,
  \<open>GetFrame\<close> is called until it fails, and \<open>GetLastFrame\<close> is called once. When it
  returns 0 the frame is stamped with \<open>audioOffset\<close> and \<open>audioOffset\<close> advances by the
  encoder's frame size. No frame is sent to the encoder in the flush: the next call on
  the encoder is the null frame, followed by the writes of what it still hands out.
\<close>

theorem flush_audio_remainder:
  assumes "careAudio params" "0 \<le> encoderAudioStreamIndex s"
  shows "(\<exists>ws. calls (flush_audio e params s) =
        calls s @ [Rs_PutAVFrameNULL] @ replicate (rs_drain e) (Rs_GetFrame True)
          @ [Rs_GetFrame False, Rs_GetLastFrame (rs_last e)]
          @ (if rs_last e = 0 then [Frame_SetPTS (audioOffset s)] else [])
          @ [AEnc_SendFrameNull] @ map W_WritePacket ws)
   \<and> audioOffset (flush_audio e params s)
       = (if rs_last e = 0 then audioOffset s + aenc_frame_size e else audioOffset s)
   \<and> sent_audio (calls (flush_audio e params s)) = sent_audio (calls s)"
proof -
  let ?mid = "[Rs_PutAVFrameNULL] @ replicate (rs_drain e) (Rs_GetFrame True)
      @ [Rs_GetFrame False, Rs_GetLastFrame (rs_last e)]
      @ (if rs_last e = 0 then [Frame_SetPTS (audioOffset s)] else []) @ [AEnc_SendFrameNull]"
  let ?ws = "map (finalise (aenc_timebase e) (writer_timebase e (encoderAudioStreamIndex s))
                   (encoderAudioStreamIndex s)) (aenc_packets e (calls s @ ?mid))"
  note eq = flush_audio_eq [OF assms, of e]
  have c: "calls (flush_audio e params s) = calls s @ ?mid @ map W_WritePacket ?ws"
    unfolding eq by (simp add: drain_audio_calls comp_def)
  have o: "audioOffset (flush_audio e params s)
       = (if rs_last e = 0 then audioOffset s + aenc_frame_size e else audioOffset s)"
    unfolding eq by (simp add: drain_audio_def)
  have sa: "sent_audio (calls (flush_audio e params s)) = sent_audio (calls s)"
    unfolding c
    by (simp add: sent_audio_append sent_audio_replicate sent_audio_Nil sent_audio_Cons
          sent_audio_written_comp)
  from c have "\<exists>ws. calls (flush_audio e params s) = calls s @ ?mid @ map W_WritePacket ws"
    by (rule exI)
  with o sa show ?thesis by simp
qed

theorem flush_audio_remainder_witness:
  "audioOffset (flush_audio demo_env demo_params flush_state) = 2304 + 1152
   \<and> sent_audio (calls (flush_audio demo_env demo_params flush_state)) = []"
  using flush_audio_remainder [of demo_params flush_state demo_env]
  by (simp add: demo_params_def flush_state_def demo_state_def demo_env_def sent_audio_def)

text \<open>
  The claim fails on both counts. With an audio offset of 2304, a frame size of 1152 and
  a resampler whose \<open>GetLastFrame\<close> delivers a frame, the flush makes exactly these
  calls: the frame is stamped 2304 and never sent, and the offset ends at 3456.
\<close>

theorem flush_audio_drops_remainder:
  "audioOffset (flush_audio demo_env demo_params flush_state) = 3456
   \<and> calls (flush_audio demo_env demo_params flush_state)
       = [Rs_PutAVFrameNULL, Rs_GetFrame False, Rs_GetLastFrame 0, Frame_SetPTS 2304, AEnc_SendFrameNull]
   \<and> sent_audio (calls (flush_audio demo_env demo_params flush_state)) = []"
  by code_simp

section \<open>Results about a video burst\<close>

lemma sent_video_append: "sent_video (xs @ ys) = sent_video xs @ sent_video ys"
  by (simp add: sent_video_def)

lemma sent_video_written: "sent_video (map (\<lambda>p. W_WritePacket (f p)) ps) = []"
  by (induction ps) (simp_all add: sent_video_def)

lemma drain_video_calls:
  "calls (drain_video e s) = calls s @ map (\<lambda>p. W_WritePacket (finalise (venc_timebase e)
       (writer_timebase e (encoderVideoStreamIndex s)) (encoderVideoStreamIndex s) p)) (venc_packets e (calls s))"
  by (simp add: drain_video_def write_packets_eq)

lemma loop_unfold:
  "TranscodeVideo_loop e params limitTime fo s =
     (if box_GetFrame e (real_of_int fo / fps params) \<noteq> 0 then Some (- 1, fo, s)
      else if real_of_int fo / fps params > limitTime then Some (0, fo + 1, encode_frame e params fo s)
      else TranscodeVideo_loop e params limitTime (fo + 1) (encode_frame e params fo s))"
  by (subst TranscodeVideo_loop.simps) (simp add: Let_def encode_frame_def frame_ms_def)

lemma encode_frame_props:
  "encode_frame e params i s = s\<lparr>calls := calls (encode_frame e params i s)\<rparr>
   \<and> (\<exists>ext. calls (encode_frame e params i s) = calls s @ ext \<and> (\<forall>c \<in> set ext. \<not> writer_control c))
   \<and> sent_video (calls (encode_frame e params i s)) = sent_video (calls s) @ [frame_ms params i]"
  by (simp add: encode_frame_def drain_video_calls drain_video_def write_packets_eq
        sent_video_append sent_video_written) (simp add: sent_video_def)

lemma TranscodeVideo_loop_result:
  assumes pos: "0 < fps params"
  shows "\<exists>r fo' s'. TranscodeVideo_loop e params limitTime fo s = Some (r, fo', s')
      \<and> (r = 0 \<or> r = - 1) \<and> fo \<le> fo'
      \<and> s' = s\<lparr>calls := calls s'\<rparr>
      \<and> (\<exists>ext. calls s' = calls s @ ext \<and> (\<forall>c \<in> set ext. \<not> writer_control c))
      \<and> sent_video (calls s') = sent_video (calls s) @ map (frame_ms params) [fo..fo' - 1]
      \<and> (\<forall>i. fo \<le> i \<and> i < fo' - 1 \<longrightarrow> real_of_int i / fps params \<le> limitTime)
      \<and> (r = 0 \<longrightarrow> fo < fo' \<and> limitTime < real_of_int (fo' - 1) / fps params)
      \<and> (r = - 1 \<longrightarrow> box_GetFrame e (real_of_int fo' / fps params) \<noteq> 0)"
proof (induction "nat (\<lfloor>limitTime * fps params\<rfloor> - fo + 1)" arbitrary: fo s rule: less_induct)
  case less
  let ?pts = "real_of_int fo / fps params"
  let ?s1 = "encode_frame e params fo s"
  note ef = encode_frame_props [of e params fo s]
  consider (fail) "box_GetFrame e ?pts \<noteq> 0"
    | (last) "box_GetFrame e ?pts = 0" "?pts > limitTime"
    | (more) "box_GetFrame e ?pts = 0" "\<not> ?pts > limitTime" by blast
  then show ?case
  proof cases
    case fail
    then have "TranscodeVideo_loop e params limitTime fo s = Some (- 1, fo, s)"
      by (subst loop_unfold) simp
    with fail show ?thesis by simp
  next
    case last
    then have "TranscodeVideo_loop e params limitTime fo s = Some (0, fo + 1, ?s1)"
      by (subst loop_unfold) simp
    with last ef show ?thesis by simp
  next
    case more
    then have le: "real_of_int fo \<le> limitTime * fps params"
      using pos by (simp add: pos_divide_le_eq not_less)
    then have "fo \<le> \<lfloor>limitTime * fps params\<rfloor>" by (simp add: le_floor_iff)
    then have "nat (\<lfloor>limitTime * fps params\<rfloor> - (fo + 1) + 1) < nat (\<lfloor>limitTime * fps params\<rfloor> - fo + 1)"
      by simp
    from less [OF this, of ?s1]
    obtain r fo' s' ext where
      ih: "TranscodeVideo_loop e params limitTime (fo + 1) ?s1 = Some (r, fo', s')"
        "r = 0 \<or> r = - 1" "fo + 1 \<le> fo'" "s' = ?s1\<lparr>calls := calls s'\<rparr>"
        "calls s' = calls ?s1 @ ext" "\<forall>c \<in> set ext. \<not> writer_control c"
        "sent_video (calls s') = sent_video (calls ?s1) @ map (frame_ms params) [fo + 1..fo' - 1]"
        "\<forall>i. fo + 1 \<le> i \<and> i < fo' - 1 \<longrightarrow> real_of_int i / fps params \<le> limitTime"
        "r = 0 \<longrightarrow> fo + 1 < fo' \<and> limitTime < real_of_int (fo' - 1) / fps params"
        "r = - 1 \<longrightarrow> box_GetFrame e (real_of_int fo' / fps params) \<noteq> 0"
      by blast
    have eq: "TranscodeVideo_loop e params limitTime fo s = Some (r, fo', s')"
      using more ih(1) by (subst loop_unfold) simp
    from ef have "?s1 = s\<lparr>calls := calls ?s1\<rparr>" by blast
    then have "?s1\<lparr>calls := calls s'\<rparr> = (s\<lparr>calls := calls ?s1\<rparr>)\<lparr>calls := calls s'\<rparr>"
      by (rule arg_cong [where f = "\<lambda>x. x\<lparr>calls := calls s'\<rparr>"])
    with ih(4) have fr: "s' = s\<lparr>calls := calls s'\<rparr>"
      by simp
    from ef obtain ext0 where e0: "calls ?s1 = calls s @ ext0" "\<forall>c \<in> set ext0. \<not> writer_control c"
      by blast
    have ex: "\<exists>ext. calls s' = calls s @ ext \<and> (\<forall>c \<in> set ext. \<not> writer_control c)"
      using ih(5,6) e0 by (intro exI [where x = "ext0 @ ext"]) auto
    have up: "[fo..fo' - 1] = fo # [fo + 1..fo' - 1]"
      using ih(3) by (simp add: upto_rec1)
    have sv: "sent_video (calls s') = sent_video (calls s) @ map (frame_ms params) [fo..fo' - 1]"
      using ih(7) ef up by simp
    have al: "\<forall>i. fo \<le> i \<and> i < fo' - 1 \<longrightarrow> real_of_int i / fps params \<le> limitTime"
    proof (intro allI impI)
      fix i assume "fo \<le> i \<and> i < fo' - 1"
      then consider "i = fo" | "fo + 1 \<le> i \<and> i < fo' - 1" by linarith
      then show "real_of_int i / fps params \<le> limitTime"
        using more ih(8) by cases auto
    qed
    from eq ih(2,3,9,10) fr ex sv al show ?thesis by auto
  qed
qed




section \<open>Results about the whole run\<close>

lemma extends_refl: "extends s s"
  by (simp add: extends_def)

lemma extends_trans: "extends s t \<Longrightarrow> extends t u \<Longrightarrow> extends s u"
  unfolding extends_def
  by (elim conjE exE, intro conjI, rule_tac x = "ext @ exta" in exI) auto

lemma extends_calls:
  "calls s' = calls s @ ext \<Longrightarrow> \<forall>c \<in> set ext. \<not> writer_control c \<Longrightarrow>
   frameCount s' = frameCount s \<Longrightarrow> audio_rest s' = audio_rest s \<Longrightarrow> extends s s'"
  by (auto simp: extends_def)

lemma extends_drain_audio: "extends s (drain_audio e s)"
  by (rule extends_calls [where ext = "map (\<lambda>p. W_WritePacket (finalise (aenc_timebase e)
       (writer_timebase e (encoderAudioStreamIndex s)) (encoderAudioStreamIndex s) p)) (aenc_packets e (calls s))"])
     (auto simp: drain_audio_calls, simp_all add: drain_audio_def)

lemma extends_drain_video: "extends s (drain_video e s)"
  by (rule extends_calls [where ext = "map (\<lambda>p. W_WritePacket (finalise (venc_timebase e)
       (writer_timebase e (encoderVideoStreamIndex s)) (encoderVideoStreamIndex s) p)) (venc_packets e (calls s))"])
     (auto simp: drain_video_calls, simp_all add: drain_video_def)

lemma extends_log:
  "\<forall>c \<in> set cs. \<not> writer_control c \<Longrightarrow> extends s (s\<lparr>calls := calls s @ cs\<rparr>)"
  by (rule extends_calls [where ext = cs]) simp_all

lemma extends_EncodeAudio: "extends s (EncodeAudio e t s)"
  unfolding EncodeAudio_def
  by (rule extends_trans [OF extends_log extends_drain_audio]) simp

lemma resample_frames_props:
  "extends s (resample_frames e k s) \<and> audio_rest (resample_frames e k s) = audio_rest s
   \<and> adec_rest (resample_frames e k s) = adec_rest s
   \<and> decoderAudioStreamIndex (resample_frames e k s) = decoderAudioStreamIndex s"
proof (induction k arbitrary: s)
  case 0
  show ?case by (simp add: extends_log)
next
  case (Suc k)
  let ?s2 = "s\<lparr>calls := calls s @ [Rs_GetFrame True, Frame_SetPTS (audioOffset s)],
                audioOffset := audioOffset s + aenc_frame_size e\<rparr>"
  let ?s3 = "EncodeAudio e (audioOffset s) ?s2"
  have a: "extends s ?s2"
    by (rule extends_calls [where ext = "[Rs_GetFrame True, Frame_SetPTS (audioOffset s)]"]) simp_all
  have b: "extends ?s2 ?s3" by (rule extends_EncodeAudio)
  have c: "resample_frames e (Suc k) s = resample_frames e k ?s3"
    by (simp add: Let_def)
  from Suc [of ?s3] a b show ?case
    unfolding c
    by (auto intro: extends_trans simp: EncodeAudio_def drain_audio_def)
qed

lemma decoded_frames_props:
  "extends s (decoded_frames e ks s) \<and> audio_rest (decoded_frames e ks s) = audio_rest s
   \<and> adec_rest (decoded_frames e ks s) = adec_rest s
   \<and> decoderAudioStreamIndex (decoded_frames e ks s) = decoderAudioStreamIndex s"
proof (induction ks arbitrary: s)
  case Nil
  show ?case by (simp add: extends_refl)
next
  case (Cons k ks)
  let ?s1 = "s\<lparr>calls := calls s @ [Rs_PutAVFrame]\<rparr>"
  let ?s2 = "resample_frames e k ?s1"
  have a: "extends s ?s1" by (rule extends_log) simp
  from resample_frames_props [of ?s1 e k] Cons [of ?s2] a show ?case
    by (auto intro: extends_trans)
qed

lemma TranscodeAudio_loop_props:
  "TranscodeAudio_loop e limitTime ps s = (r, rest, s') \<Longrightarrow>
   (r = 0 \<or> r = - 1) \<and> length rest \<le> length ps \<and> (r = 0 \<longrightarrow> length rest < length ps)
   \<and> extends s s'"
proof (induction ps arbitrary: s)
  case Nil
  then show ?case
    using decoded_frames_props [of s e "adec_rest s"]
    by (auto simp: extends_def)
next
  case (Cons packet ps)
  show ?case
  proof (cases "ap_stream_index packet \<noteq> decoderAudioStreamIndex s")
    case True
    with Cons.prems have "TranscodeAudio_loop e limitTime ps s = (r, rest, s')" by simp
    from Cons.IH [OF this] show ?thesis by auto
  next
    case False
    let ?s1 = "decoded_frames e (ap_frames packet) s"
    let ?t = "(if ap_frames packet = [] then 0 else real_of_int (audioOffset ?s1) * 1.0 / 44100)"
    note d = decoded_frames_props [of s e "ap_frames packet"]
    show ?thesis
    proof (cases "?t > limitTime")
      case True
      with False Cons.prems have "r = 0" "rest = ps" "s' = ?s1" by (simp_all add: Let_def)
      with d show ?thesis by simp
    next
      case no: False
      with False Cons.prems have "TranscodeAudio_loop e limitTime ps ?s1 = (r, rest, s')"
        by (simp add: Let_def)
      from Cons.IH [OF this] d show ?thesis by (auto intro: extends_trans)
    qed
  qed
qed

lemma TranscodeAudio_props:
  "TranscodeAudio e limitTime s = (r, s') \<Longrightarrow>
   (r = 0 \<or> r = - 1) \<and> (r = 0 \<longrightarrow> length (audio_rest s') < length (audio_rest s))
   \<and> extends s s'"
proof -
  assume a: "TranscodeAudio e limitTime s = (r, s')"
  obtain r0 rest s1 where l: "TranscodeAudio_loop e limitTime (audio_rest s) s = (r0, rest, s1)"
    by (metis prod_cases3)
  with a have b: "r = r0" "s' = s1\<lparr>audio_rest := rest\<rparr>"
    by (simp_all add: TranscodeAudio_def)
  from TranscodeAudio_loop_props [OF l] b show ?thesis
    by (auto simp: extends_def)
qed

lemma TranscodeVideo_props:
  assumes "0 < fps params"
  shows "\<exists>r fo' s'. TranscodeVideo e params limitTime fo s = Some (r, fo', s')
      \<and> (r = 0 \<or> r = - 1) \<and> fo \<le> fo' \<and> (r = 0 \<longrightarrow> fo < frameCount s \<and> fo < fo')
      \<and> extends s s' \<and> audio_rest s' = audio_rest s"
proof (cases "frameCount s \<le> fo")
  case True
  then show ?thesis by (simp add: TranscodeVideo_def extends_refl)
next
  case False
  from TranscodeVideo_loop_result [OF assms, of e limitTime fo s]
  obtain r fo' s' ext where
    h: "TranscodeVideo_loop e params limitTime fo s = Some (r, fo', s')"
      "r = 0 \<or> r = - 1" "fo \<le> fo'" "s' = s\<lparr>calls := calls s'\<rparr>"
      "calls s' = calls s @ ext" "\<forall>c \<in> set ext. \<not> writer_control c"
      "r = 0 \<longrightarrow> fo < fo'"
    by blast
  from h(4) have "frameCount s' = frameCount s" "audio_rest s' = audio_rest s"
    by (metis transcode.select_convs transcode.surjective transcode.update_convs(1))+
  with h False show ?thesis
    by (auto simp: TranscodeVideo_def extends_def)
qed

lemma main_loop_unfold:
  assumes "(if careVideo params then TranscodeVideo e params (limitTime + 1 / 2) fo s
            else Some (- 1, fo, s)) = Some (rv, fo1, s1)"
    and "(if careAudio params then TranscodeAudio e (limitTime + 1 / 2) s1 else (- 1, s1)) = (ra, s2)"
  shows "main_loop e params limitTime fo s =
     (if ra \<noteq> 0 \<and> rv \<noteq> 0 then Some (fo1, s2) else main_loop e params (limitTime + 1 / 2) fo1 s2)"
proof -
  have h: "limitTime + 0.5 = limitTime + 1 / 2" by simp
  show ?thesis
    by (subst main_loop.simps) (simp only: h assms Option.bind.simps prod.case)
qed

lemma main_loop_result:
  assumes pos: "careVideo params \<longrightarrow> 0 < fps params"
  shows "\<exists>fo' s'. main_loop e params limitTime fo s = Some (fo', s') \<and> extends s s'"
proof (induction "length (audio_rest s) + nat (frameCount s - fo)" arbitrary: limitTime fo s
    rule: less_induct)
  case less
  have "\<exists>rv fo1 s1.
      (if careVideo params then TranscodeVideo e params (limitTime + 1 / 2) fo s else Some (- 1, fo, s))
        = Some (rv, fo1, s1)
      \<and> (rv = 0 \<or> rv = - 1) \<and> fo \<le> fo1 \<and> (rv = 0 \<longrightarrow> fo < frameCount s \<and> fo < fo1)
      \<and> extends s s1 \<and> audio_rest s1 = audio_rest s"
  proof (cases "careVideo params")
    case True
    with pos TranscodeVideo_props [of params e "limitTime + 1 / 2" fo s] show ?thesis by simp
  next
    case False
    then show ?thesis by (simp add: extends_refl)
  qed
  then obtain rv fo1 s1 where
    v: "(if careVideo params then TranscodeVideo e params (limitTime + 1 / 2) fo s else Some (- 1, fo, s))
          = Some (rv, fo1, s1)"
      "rv = 0 \<or> rv = - 1" "fo \<le> fo1" "rv = 0 \<longrightarrow> fo < frameCount s \<and> fo < fo1"
      "extends s s1" "audio_rest s1 = audio_rest s"
    by blast
  obtain ra s2 where
    a: "(if careAudio params then TranscodeAudio e (limitTime + 1 / 2) s1 else (- 1, s1)) = (ra, s2)"
    by (metis surj_pair)
  have ap: "(ra = 0 \<or> ra = - 1) \<and> (ra = 0 \<longrightarrow> length (audio_rest s2) < length (audio_rest s1))
      \<and> extends s1 s2"
  proof (cases "careAudio params")
    case True
    with a TranscodeAudio_props [of e "limitTime + 1 / 2" s1 ra s2] show ?thesis by simp
  next
    case False
    with a show ?thesis by (auto simp: extends_refl)
  qed
  have ex: "extends s s2" using v(5) ap by (blast intro: extends_trans)
  note u = main_loop_unfold [OF v(1) a]
  show ?case
  proof (cases "ra \<noteq> 0 \<and> rv \<noteq> 0")
    case True
    with u ex show ?thesis by simp
  next
    case False
    have fc: "frameCount s2 = frameCount s" "length (audio_rest s2) \<le> length (audio_rest s)"
      using ex by (simp_all add: extends_def)
    have l1: "length (audio_rest s2) \<le> length (audio_rest s1)"
      using ap by (simp add: extends_def)
    have "length (audio_rest s2) + nat (frameCount s2 - fo1)
            < length (audio_rest s) + nat (frameCount s - fo)"
    proof (cases "rv = 0")
      case True
      with v(4) have "nat (frameCount s - fo1) < nat (frameCount s - fo)" by linarith
      with fc show ?thesis by linarith
    next
      case rv: False
      with False have "ra = 0" by blast
      with ap v(6) have "length (audio_rest s2) < length (audio_rest s)" by simp
      moreover have "nat (frameCount s - fo1) \<le> nat (frameCount s - fo)" using v(3) by linarith
      ultimately show ?thesis using fc by linarith
    qed
    from less [OF this, of "limitTime + 1 / 2"]
    obtain fo' s' where r: "main_loop e params (limitTime + 1 / 2) fo1 s2 = Some (fo', s')"
      "extends s2 s'" by blast
    with u False ex show ?thesis by (auto intro: extends_trans)
  qed
qed

lemma extends_flush_video: "extends s (flush_video e params s)"
  unfolding flush_video_def
  by (auto intro!: extends_refl extends_trans [OF extends_log extends_drain_video])

lemma extends_flush_audio: "extends s (flush_audio e params s)"
proof (cases "careAudio params \<and> 0 \<le> encoderAudioStreamIndex s")
  case False
  then show ?thesis by (auto simp: flush_audio_def extends_refl)
next
  case True
  let ?mid = "[Rs_PutAVFrameNULL] @ replicate (rs_drain e) (Rs_GetFrame True)
      @ [Rs_GetFrame False, Rs_GetLastFrame (rs_last e)]
      @ (if rs_last e = 0 then [Frame_SetPTS (audioOffset s)] else []) @ [AEnc_SendFrameNull]"
  let ?s3 = "s\<lparr>audioOffset := (if rs_last e = 0 then audioOffset s + aenc_frame_size e
                                else audioOffset s),
              calls := calls s @ ?mid\<rparr>"
  have 1: "flush_audio e params s = drain_audio e ?s3"
    using True by (simp add: flush_audio_def Let_def clear_resample_eq)
  have 2: "extends s ?s3"
    by (rule extends_calls [where ext = ?mid]) auto
  show ?thesis unfolding 1 by (rule extends_trans [OF 2 extends_drain_audio])
qed

lemma InitEncoder_calls:
  "\<exists>pre. calls (InitEncoder e params s) = calls s @ pre
     \<and> set pre \<subseteq> {VEnc_Init (venc_Init_ret e), AEnc_Init (aenc_Init_ret e), W_AddStream}"
  by (auto simp: InitEncoder_def Let_def)

lemma InitDeocder_calls:
  "\<exists>d. calls (InitDeocder e s) = calls s @ d \<and> (\<forall>c \<in> set d. \<not> writer_control c)"
  by (auto simp: InitDeocder_def Let_def)

lemma TranscodeVideo_loop_extends:
  "TranscodeVideo_loop e params limitTime fo s = Some y \<Longrightarrow> extends s (snd (snd y))"
proof (induct rule: TranscodeVideo_loop.raw_induct [rotated 1, consumes 1, case_names step])
  case (step loop e params limitTime fo s y)
  define s1 where "s1 = drain_video e
     (s\<lparr>calls := calls s @ [Frame_SetPTS (double_to_integer (real_of_int fo * 1.0 / fps params * 1000)),
                             VEnc_SendFrame (double_to_integer (real_of_int fo * 1.0 / fps params * 1000))]\<rparr>)"
  have a: "extends s s1"
    unfolding s1_def by (rule extends_trans [OF extends_log extends_drain_video]) simp
  from step(2) have "y = (- 1, fo, s) \<or> y = (0, fo + 1, s1) \<or> loop e params limitTime (fo + 1) s1 = Some y"
    unfolding s1_def by (simp add: Let_def split: if_splits)
  then show ?case
    using a step(1) [of e params limitTime "fo + 1" s1 y]
    by (auto intro: extends_trans simp: extends_refl)
qed

lemma TranscodeVideo_extends:
  "TranscodeVideo e params limitTime fo s = Some (r, fo', s') \<Longrightarrow> extends s s'"
  using TranscodeVideo_loop_extends [of e params limitTime fo s "(r, fo', s')"]
  by (auto simp: TranscodeVideo_def extends_refl split: if_splits)

lemma main_loop_extends:
  "main_loop e params limitTime fo s = Some y \<Longrightarrow> extends s (snd y)"
proof (induct rule: main_loop.raw_induct [rotated 1, consumes 1, case_names step])
  case (step loop e params limitTime fo s y)
  from step(2) obtain rv fo1 s1 where
    v: "(if careVideo params then TranscodeVideo e params (limitTime + 0.5) fo s else Some (- 1, fo, s))
          = Some (rv, fo1, s1)"
    by (cases "if careVideo params then TranscodeVideo e params (limitTime + 0.5) fo s
               else Some (- 1, fo, s)") auto
  obtain ra s2 where
    a: "(if careAudio params then TranscodeAudio e (limitTime + 0.5) s1 else (- 1, s1)) = (ra, s2)"
    by (metis surj_pair)
  have e1: "extends s s1"
    using v TranscodeVideo_extends [of e params "limitTime + 0.5" fo s rv fo1 s1]
    by (auto simp: extends_refl split: if_splits)
  have e2: "extends s1 s2"
    using a TranscodeAudio_props [of e "limitTime + 0.5" s1 ra s2]
    by (auto simp: extends_refl split: if_splits)
  from step(2) have "y = (fo1, s2) \<or> loop e params (limitTime + 0.5) fo1 s2 = Some y"
    by (simp only: v a Option.bind.simps prod.case split: if_splits) auto
  then show ?case
    using e1 e2 step(1) [of e params "limitTime + 0.5" fo1 s2 y]
    by (auto intro: extends_trans)
qed

lemma Transcode_shape:
  assumes "Transcode e params s0 = Some (r, s)"
  shows "r = 0 \<and> (\<exists>pre body.
      calls s = calls s0 @ [W_Open (Open_ret e)] @ pre @ [W_WriteHand (WriteHand_ret e)] @ body
                  @ [W_WriteTrailer, W_Close]
      \<and> set pre \<subseteq> {VEnc_Init (venc_Init_ret e), AEnc_Init (aenc_Init_ret e), W_AddStream}
      \<and> (\<forall>c \<in> set body. \<not> writer_control c))"
proof -
  let ?s1 = "s0\<lparr>calls := calls s0 @ [W_Open (Open_ret e)]\<rparr>"
  let ?s2 = "InitEncoder e params ?s1"
  let ?s3 = "?s2\<lparr>calls := calls ?s2 @ [W_WriteHand (WriteHand_ret e)]\<rparr>"
  let ?s4 = "InitDeocder e ?s3"
  let ?s5 = "(if decoderAudioStreamIndex ?s4 \<ge> 0 then ?s4\<lparr>calls := calls ?s4 @ [Rs_Init]\<rparr> else ?s4)"
  let ?s6 = "?s5\<lparr>frameCount := compute_frameCount (decoderVideoStreamIndex ?s5) (videoDuration ?s5)
                                   (fps params) (frameCount ?s5)\<rparr>"
  obtain pre where pre: "calls ?s2 = calls s0 @ [W_Open (Open_ret e)] @ pre"
      "set pre \<subseteq> {VEnc_Init (venc_Init_ret e), AEnc_Init (aenc_Init_ret e), W_AddStream}"
    using InitEncoder_calls [of e params ?s1] by auto
  obtain d where c4: "calls ?s4 = calls ?s3 @ d" "\<forall>c \<in> set d. \<not> writer_control c"
    using InitDeocder_calls [of e ?s3] by blast
  obtain b0 where b0: "calls ?s6 = calls ?s3 @ b0" "\<forall>c \<in> set b0. \<not> writer_control c"
  proof (cases "decoderAudioStreamIndex ?s4 \<ge> 0")
    case True
    then have "calls ?s6 = calls ?s3 @ (d @ [Rs_Init])" using c4 by simp
    then show ?thesis using that [of "d @ [Rs_Init]"] c4(2) by simp
  next
    case False
    then have "calls ?s6 = calls ?s3 @ d" using c4 by simp
    then show ?thesis using that [of d] c4(2) by simp
  qed
  from assms obtain fo s7 where m: "main_loop e params 0 0 ?s6 = Some (fo, s7)"
    by (cases "main_loop e params 0 0 ?s6") (auto simp: Transcode_def Let_def)
  let ?s8 = "flush_video e params s7"
  let ?s9 = "flush_audio e params ?s8"
  have "extends ?s6 ?s9"
    using main_loop_extends [OF m] extends_flush_video [of s7 e params]
      extends_flush_audio [of ?s8 e params]
    by (auto intro: extends_trans)
  then obtain b1 where b1: "calls ?s9 = calls ?s6 @ b1" "\<forall>c \<in> set b1. \<not> writer_control c"
    by (auto simp: extends_def)
  have t: "Transcode e params s0 = Some (0, ?s9\<lparr>calls := calls ?s9 @ [W_WriteTrailer, W_Close]\<rparr>)"
    using m by (simp add: Transcode_def Let_def)
  with assms have rs: "r = 0" "s = ?s9\<lparr>calls := calls ?s9 @ [W_WriteTrailer, W_Close]\<rparr>"
    by simp_all
  have cs: "calls s = calls s0 @ [W_Open (Open_ret e)] @ pre @ [W_WriteHand (WriteHand_ret e)] @ (b0 @ b1)
          @ [W_WriteTrailer, W_Close]"
    unfolding rs(2) using b1(1) b0(1) pre(1) by simp
  have bb: "\<forall>c \<in> set (b0 @ b1). \<not> writer_control c" using b0(2) b1(2) by auto
  from rs(1) cs pre(2) bb show ?thesis by blast
qed

lemma Transcode_returns:
  assumes "careVideo params \<longrightarrow> 0 < fps params"
  shows "\<exists>s. Transcode e params s0 = Some (0, s)"
proof -
  let ?s1 = "s0\<lparr>calls := calls s0 @ [W_Open (Open_ret e)]\<rparr>"
  let ?s2 = "InitEncoder e params ?s1"
  let ?s3 = "?s2\<lparr>calls := calls ?s2 @ [W_WriteHand (WriteHand_ret e)]\<rparr>"
  let ?s4 = "InitDeocder e ?s3"
  let ?s5 = "(if decoderAudioStreamIndex ?s4 \<ge> 0 then ?s4\<lparr>calls := calls ?s4 @ [Rs_Init]\<rparr> else ?s4)"
  let ?s6 = "?s5\<lparr>frameCount := compute_frameCount (decoderVideoStreamIndex ?s5) (videoDuration ?s5)
                                   (fps params) (frameCount ?s5)\<rparr>"
  from main_loop_result [OF assms, of e 0 0 ?s6]
  obtain fo s7 where "main_loop e params 0 0 ?s6 = Some (fo, s7)" by blast
  then show ?thesis by (simp add: Transcode_def Let_def)
qed

text \<open>
  C7. Whenever \<open>Transcode\<close> returns, the calls it made are: the open of the writer, then
  only initialisations of encoders and additions of streams, then the header, then calls
  among which none opens, structures or closes the file (the packet writes are here),
  then the trailer and the close, last. With a positive frame rate, or without video,
  it does return.
\<close>

theorem Transcode_writer_order:
  "(Transcode e params s0 = Some (r, s) \<longrightarrow>
      (\<exists>pre body.
         calls s = calls s0 @ [W_Open (Open_ret e)] @ pre @ [W_WriteHand (WriteHand_ret e)] @ body
                     @ [W_WriteTrailer, W_Close]
         \<and> set pre \<subseteq> {VEnc_Init (venc_Init_ret e), AEnc_Init (aenc_Init_ret e), W_AddStream}
         \<and> (\<forall>c \<in> set body. \<not> writer_control c)))
   \<and> ((careVideo params \<longrightarrow> 0 < fps params) \<longrightarrow> (\<exists>s'. Transcode e params s0 = Some (0, s')))"
  using Transcode_shape [of e params s0 r s] Transcode_returns [of params e s0] by blast

theorem Transcode_writer_order_witness:
  "(\<exists>s' pre body. Transcode demo_env demo_params demo_state = Some (0, s')
      \<and> calls s' = [W_Open (- 1)] @ pre @ [W_WriteHand (- 1)] @ body @ [W_WriteTrailer, W_Close]
      \<and> set pre \<subseteq> {VEnc_Init (- 1), AEnc_Init (- 1), W_AddStream}
      \<and> (\<forall>c \<in> set body. \<not> writer_control c))
   \<and> map_option (\<lambda>(r, s). filter writer_call (calls s)) (Transcode demo_env demo_params demo_state)
       = Some [W_Open (- 1), W_AddStream, W_AddStream, W_WriteHand (- 1),
               W_WritePacket \<lparr>av_pts = 0, av_dts = 0, av_duration = 0, av_stream_index = 0\<rparr>,
               W_WritePacket \<lparr>av_pts = 1000, av_dts = 1000, av_duration = 0, av_stream_index = 0\<rparr>,
               W_WritePacket \<lparr>av_pts = 0, av_dts = 0, av_duration = 0, av_stream_index = 1\<rparr>,
               W_WriteTrailer, W_Close]"
proof -
  obtain s' where r: "Transcode demo_env demo_params demo_state = Some (0, s')"
    using Transcode_writer_order [of demo_env demo_params demo_state 0 demo_state]
    by (auto simp: demo_params_def)
  have a: "\<exists>s' pre body. Transcode demo_env demo_params demo_state = Some (0, s')
      \<and> calls s' = [W_Open (- 1)] @ pre @ [W_WriteHand (- 1)] @ body @ [W_WriteTrailer, W_Close]
      \<and> set pre \<subseteq> {VEnc_Init (- 1), AEnc_Init (- 1), W_AddStream}
      \<and> (\<forall>c \<in> set body. \<not> writer_control c)"
    using Transcode_writer_order [of demo_env demo_params demo_state 0 s'] r
    by (simp add: demo_env_def demo_state_def)
  have b: "map_option (\<lambda>(r, s). filter writer_call (calls s)) (Transcode demo_env demo_params demo_state)
       = Some [W_Open (- 1), W_AddStream, W_AddStream, W_WriteHand (- 1),
               W_WritePacket \<lparr>av_pts = 0, av_dts = 0, av_duration = 0, av_stream_index = 0\<rparr>,
               W_WritePacket \<lparr>av_pts = 1000, av_dts = 1000, av_duration = 0, av_stream_index = 0\<rparr>,
               W_WritePacket \<lparr>av_pts = 0, av_dts = 0, av_duration = 0, av_stream_index = 1\<rparr>,
               W_WriteTrailer, W_Close]"
    by code_simp
  from a b show ?thesis by (rule conjI)
qed



end
